theory Spec2Isabelle
  imports Complex_Main
begin

section \<open>Data model\<close>

text \<open>
  The book-swap backend stores four collections of documents.  Object ids are modelled as
  natural numbers, dates as integer millisecond timestamps, and the current time
  (\<^verbatim>\<open>new Date()\<close>, \<^verbatim>\<open>Date.now()\<close>) is a parameter \<open>now\<close> of every operation that
  reads the clock.  JavaScript numbers that hold ratings and averages are idealised as
  exact rationals.

  Out of the model: the express-validator chains (a request is taken to be well-formed:
  ids are ids, a rating is an integer from 1 to 5), the authentication middleware (the
  authenticated user id is the parameter \<open>uid\<close>), \<^verbatim>\<open>populate\<close> (it only reads), and
  failures of the database driver.  The \<^verbatim>\<open>catch\<close> branch of a route is modelled where
  the route's own code throws.
\<close>

type_synonym objectId = nat
type_synonym date = int

datatype swap_status = Pending | Accepted | Declined | Completed | Cancelled

datatype role = UserRole | AdminRole

text \<open>Book schema: \<^verbatim>\<open>owner\<close> is not required and defaults to \<^verbatim>\<open>null\<close>.\<close>

record book =
  title :: string
  book_owner :: "objectId option"
  isAvailable :: bool
  book_isActive :: bool
  viewCount :: int
  swapCount :: int

record user =
  username :: string
  user_rating :: rat
  totalRatings :: nat
  totalSwaps :: int

record swap =
  swap_id :: objectId
  requester :: objectId
  swap_owner :: objectId
  requestedBook :: objectId
  offeredBook :: objectId
  status :: swap_status
  message :: string
  responseMessage :: string
  meetingLocation :: "string option"
  meetingDate :: "date option"
  completedAt :: "date option"
  expiresAt :: date
  swap_isActive :: bool

record review =
  review_id :: objectId
  reviewer :: objectId
  reviewee :: objectId
  review_swap :: objectId
  review_rating :: int
  comment :: string
  review_isActive :: bool

text \<open>
  The database.  Books and users are only ever looked up by id, so they are maps; swaps
  and reviews are also searched by field values, so they are lists of documents.
\<close>

record db =
  books :: "objectId \<rightharpoonup> book"
  users :: "objectId \<rightharpoonup> user"
  swaps :: "swap list"
  reviews :: "review list"

text \<open>An HTTP reply: status code and the \<^verbatim>\<open>message\<close> field of the JSON body.\<close>

datatype response = Reply nat string

section \<open>Collection primitives\<close>

text \<open>\<^verbatim>\<open>Model.findByIdAndUpdate(id, update)\<close>: a missing document is left missing.\<close>

definition findByIdAndUpdate :: "objectId \<Rightarrow> ('a \<Rightarrow> 'a) \<Rightarrow> (objectId \<rightharpoonup> 'a) \<Rightarrow> (objectId \<rightharpoonup> 'a)" where
  "findByIdAndUpdate i f m = (case m i of None \<Rightarrow> m | Some d \<Rightarrow> m(i \<mapsto> f d))"

text \<open>Writing a loaded document back: the first document that matches is replaced.\<close>

fun update_one :: "('a \<Rightarrow> bool) \<Rightarrow> 'a \<Rightarrow> 'a list \<Rightarrow> 'a list" where
  "update_one P y [] = []"
| "update_one P y (x # xs) = (if P x then y # xs else x # update_one P y xs)"

text \<open>A fresh id for a new document.\<close>

definition fresh_id :: "objectId list \<Rightarrow> objectId" where
  "fresh_id ids = Suc (foldr max ids 0)"

section \<open>Book model (src/unnamed/part_001)\<close>

text \<open>
  \<^verbatim>\<open>canEdit(userId) { return this.owner.toString() === userId.toString(); }\<close>
  throws a TypeError when \<^verbatim>\<open>owner\<close> is \<^verbatim>\<open>null\<close>: the result \<open>None\<close>.
\<close>

definition book_canEdit :: "book \<Rightarrow> objectId \<Rightarrow> bool option" where
  "book_canEdit b userId = (case book_owner b of None \<Rightarrow> None | Some ow \<Rightarrow> Some (ow = userId))"

section \<open>Swap model (src/models/Swap.js)\<close>

definition isExpired :: "swap \<Rightarrow> date \<Rightarrow> bool" where
  "isExpired s now = (expiresAt s < now \<and> status s = Pending)"

definition canModify :: "swap \<Rightarrow> objectId \<Rightarrow> bool" where
  "canModify s userId = (requester s = userId \<or> swap_owner s = userId)"

definition isOwner :: "swap \<Rightarrow> objectId \<Rightarrow> bool" where
  "isOwner s userId = (swap_owner s = userId)"

definition isRequester :: "swap \<Rightarrow> objectId \<Rightarrow> bool" where
  "isRequester s userId = (requester s = userId)"

text \<open>
  The pre-save middleware.  \<open>orig\<close> is the document as loaded, \<open>s\<close> the document being
  saved; \<^verbatim>\<open>this.isModified('status')\<close> is \<open>status s \<noteq> status orig\<close>.
\<close>

definition swap_pre_save :: "swap \<Rightarrow> swap \<Rightarrow> db \<Rightarrow> db" where
  "swap_pre_save orig s d =
    (if status s \<noteq> status orig then
       (if status s = Accepted then
          d\<lparr>books := findByIdAndUpdate (offeredBook s) (\<lambda>b. b\<lparr>isAvailable := False\<rparr>)
                       (findByIdAndUpdate (requestedBook s) (\<lambda>b. b\<lparr>isAvailable := False\<rparr>) (books d))\<rparr>
        else if status s = Completed then
          d\<lparr>books := findByIdAndUpdate (offeredBook s) (\<lambda>b. b\<lparr>swapCount := swapCount b + 1\<rparr>)
                       (findByIdAndUpdate (requestedBook s) (\<lambda>b. b\<lparr>swapCount := swapCount b + 1\<rparr>) (books d)),
            users := findByIdAndUpdate (swap_owner s) (\<lambda>u. u\<lparr>totalSwaps := totalSwaps u + 1\<rparr>)
                       (findByIdAndUpdate (requester s) (\<lambda>u. u\<lparr>totalSwaps := totalSwaps u + 1\<rparr>) (users d))\<rparr>
        else if status s = Declined \<or> status s = Cancelled then
          d\<lparr>books := findByIdAndUpdate (offeredBook s) (\<lambda>b. b\<lparr>isAvailable := True\<rparr>)
                       (findByIdAndUpdate (requestedBook s) (\<lambda>b. b\<lparr>isAvailable := True\<rparr>) (books d))\<rparr>
        else d)
     else d)"

text \<open>\<^verbatim>\<open>this.save()\<close> of a loaded swap: the middleware runs, then the document is written.\<close>

definition swap_save :: "swap \<Rightarrow> swap \<Rightarrow> db \<Rightarrow> db" where
  "swap_save orig s d =
    (let d1 = swap_pre_save orig s d
     in d1\<lparr>swaps := update_one (\<lambda>x. swap_id x = swap_id s) s (swaps d1)\<rparr>)"

text \<open>
  The instance methods.  A parameter left \<^verbatim>\<open>undefined\<close> by the caller is \<open>None\<close> and
  takes the default \<^verbatim>\<open>''\<close>; \<^verbatim>\<open>if (meetingDetails.location)\<close> is false for the empty string.
\<close>

definition swap_accept :: "swap \<Rightarrow> string option \<Rightarrow> string option \<Rightarrow> date option \<Rightarrow> db \<Rightarrow> db" where
  "swap_accept s rm loc dt d =
    (let s1 = s\<lparr>status := Accepted, responseMessage := (case rm of None \<Rightarrow> [] | Some m \<Rightarrow> m)\<rparr>;
         s2 = (case loc of None \<Rightarrow> s1 | Some l \<Rightarrow> if l = [] then s1 else s1\<lparr>meetingLocation := Some l\<rparr>);
         s3 = (case dt of None \<Rightarrow> s2 | Some t \<Rightarrow> s2\<lparr>meetingDate := Some t\<rparr>)
     in swap_save s s3 d)"

definition swap_decline :: "swap \<Rightarrow> string option \<Rightarrow> db \<Rightarrow> db" where
  "swap_decline s rm d =
    swap_save s (s\<lparr>status := Declined, responseMessage := (case rm of None \<Rightarrow> [] | Some m \<Rightarrow> m)\<rparr>) d"

definition swap_complete :: "swap \<Rightarrow> date \<Rightarrow> db \<Rightarrow> db" where
  "swap_complete s now d = swap_save s (s\<lparr>status := Completed, completedAt := Some now\<rparr>) d"

definition swap_cancel :: "swap \<Rightarrow> db \<Rightarrow> db" where
  "swap_cancel s d = swap_save s (s\<lparr>status := Cancelled\<rparr>) d"

definition swap_findById :: "objectId \<Rightarrow> db \<Rightarrow> swap option" where
  "swap_findById i d = find (\<lambda>s. swap_id s = i) (swaps d)"

section \<open>Swap routes (src/routes/swaps.js)\<close>

text \<open>\<^verbatim>\<open>!book || !book.isActive || !book.isAvailable\<close>\<close>

definition not_available :: "book option \<Rightarrow> bool" where
  "not_available bo = (case bo of None \<Rightarrow> True | Some b \<Rightarrow> \<not> book_isActive b \<or> \<not> isAvailable b)"

text \<open>The query of \<^verbatim>\<open>Swap.findOne\<close> in \<^verbatim>\<open>POST /api/swaps\<close>.\<close>

definition existingSwap :: "objectId \<Rightarrow> objectId \<Rightarrow> objectId \<Rightarrow> db \<Rightarrow> swap option" where
  "existingSwap uid requestedBookId offeredBookId d =
    find (\<lambda>s. requester s = uid \<and> requestedBook s = requestedBookId \<and> offeredBook s = offeredBookId
               \<and> status s = Pending \<and> swap_isActive s) (swaps d)"

text \<open>
  \<^verbatim>\<open>POST /api/swaps\<close>.  The new swap has the schema defaults (status pending,
  \<^verbatim>\<open>expiresAt\<close> seven days from now).  Its \<^verbatim>\<open>save()\<close> runs the pre-save middleware too,
  which has no branch for status pending and so writes nothing.
\<close>

definition create_swap :: "objectId \<Rightarrow> objectId \<Rightarrow> objectId \<Rightarrow> string \<Rightarrow> date \<Rightarrow> db \<Rightarrow> response \<times> db" where
  "create_swap uid requestedBookId offeredBookId msg now d =
    (if not_available (books d requestedBookId) then
       (Reply 400 ''Requested book is not available'', d)
     else if not_available (books d offeredBookId) then
       (Reply 400 ''Offered book is not available'', d)
     else
       (case book_canEdit (the (books d offeredBookId)) uid of
          None \<Rightarrow> (Reply 500 ''Server error while creating swap request'', d)
        | Some False \<Rightarrow> (Reply 403 ''You can only offer books you own'', d)
        | Some True \<Rightarrow>
           (case book_canEdit (the (books d requestedBookId)) uid of
              None \<Rightarrow> (Reply 500 ''Server error while creating swap request'', d)
            | Some True \<Rightarrow> (Reply 400 ''You cannot request your own book'', d)
            | Some False \<Rightarrow>
               (case existingSwap uid requestedBookId offeredBookId d of
                  Some e \<Rightarrow> (Reply 400 ''You already have a pending swap request for these books'', d)
                | None \<Rightarrow>
                   (Reply 201 ''Swap request sent successfully'',
                    d\<lparr>swaps := swaps d @
                      [\<lparr>swap_id = fresh_id (map swap_id (swaps d)),
                        requester = uid,
                        swap_owner = the (book_owner (the (books d requestedBookId))),
                        requestedBook = requestedBookId,
                        offeredBook = offeredBookId,
                        status = Pending,
                        message = msg,
                        responseMessage = [],
                        meetingLocation = None,
                        meetingDate = None,
                        completedAt = None,
                        expiresAt = now + 7 * 24 * 60 * 60 * 1000,
                        swap_isActive = True\<rparr>]\<rparr>)))))"

text \<open>\<^verbatim>\<open>PUT /api/swaps/:id/accept\<close>\<close>

definition accept_swap ::
  "objectId \<Rightarrow> objectId \<Rightarrow> string option \<Rightarrow> string option \<Rightarrow> date option \<Rightarrow> date \<Rightarrow> db \<Rightarrow> response \<times> db" where
  "accept_swap uid sid rm loc dt now d =
    (case swap_findById sid d of
       None \<Rightarrow> (Reply 404 ''Swap not found'', d)
     | Some s \<Rightarrow>
        if \<not> isOwner s uid then (Reply 403 ''Only the book owner can accept swap requests'', d)
        else if status s \<noteq> Pending then (Reply 400 ''This swap request is no longer pending'', d)
        else if isExpired s now then (Reply 400 ''This swap request has expired'', d)
        else (Reply 200 ''Swap request accepted successfully'', swap_accept s rm loc dt d))"

text \<open>\<^verbatim>\<open>PUT /api/swaps/:id/decline\<close>\<close>

definition decline_swap :: "objectId \<Rightarrow> objectId \<Rightarrow> string option \<Rightarrow> db \<Rightarrow> response \<times> db" where
  "decline_swap uid sid rm d =
    (case swap_findById sid d of
       None \<Rightarrow> (Reply 404 ''Swap not found'', d)
     | Some s \<Rightarrow>
        if \<not> isOwner s uid then (Reply 403 ''Only the book owner can decline swap requests'', d)
        else if status s \<noteq> Pending then (Reply 400 ''This swap request is no longer pending'', d)
        else (Reply 200 ''Swap request declined'', swap_decline s rm d))"

text \<open>\<^verbatim>\<open>PUT /api/swaps/:id/complete\<close>\<close>

definition complete_swap :: "objectId \<Rightarrow> objectId \<Rightarrow> date \<Rightarrow> db \<Rightarrow> response \<times> db" where
  "complete_swap uid sid now d =
    (case swap_findById sid d of
       None \<Rightarrow> (Reply 404 ''Swap not found'', d)
     | Some s \<Rightarrow>
        if \<not> canModify s uid then (Reply 403 ''Not authorized to complete this swap'', d)
        else if status s \<noteq> Accepted then (Reply 400 ''Only accepted swaps can be completed'', d)
        else (Reply 200 ''Swap marked as completed'', swap_complete s now d))"

text \<open>\<^verbatim>\<open>PUT /api/swaps/:id/cancel\<close>\<close>

definition cancel_swap :: "objectId \<Rightarrow> objectId \<Rightarrow> db \<Rightarrow> response \<times> db" where
  "cancel_swap uid sid d =
    (case swap_findById sid d of
       None \<Rightarrow> (Reply 404 ''Swap not found'', d)
     | Some s \<Rightarrow>
        if \<not> isRequester s uid then (Reply 403 ''Only the requester can cancel swap requests'', d)
        else if \<not> (status s = Pending \<or> status s = Accepted) then
          (Reply 400 ''This swap cannot be cancelled'', d)
        else (Reply 200 ''Swap request cancelled'', swap_cancel s d))"

section \<open>Review model (src/models/Review.js)\<close>

text \<open>\<^verbatim>\<open>Math.round\<close>: the nearest integer, a half rounded up.\<close>

definition math_round :: "rat \<Rightarrow> int" where
  "math_round x = \<lfloor>x + 1 / 2\<rfloor>"

text \<open>The \<^verbatim>\<open>$match\<close> stage: the ratings of the active reviews of a reviewee.\<close>

definition match_ratings :: "review list \<Rightarrow> objectId \<Rightarrow> int list" where
  "match_ratings rvs userId =
     map review_rating (filter (\<lambda>r. reviewee r = userId \<and> review_isActive r) rvs)"

text \<open>
  The \<^verbatim>\<open>$group\<close> stage with \<^verbatim>\<open>_id: null\<close>: no group when nothing matched, else one
  group holding \<^verbatim>\<open>$avg\<close> and the count.
\<close>

definition group_ratings :: "int list \<Rightarrow> (rat \<times> nat) list" where
  "group_ratings rs =
     (if rs = [] then [] else [(of_int (sum_list rs) / of_nat (length rs), length rs)])"

text \<open>\<^verbatim>\<open>calculateUserRating\<close>: the pair (averageRating, totalReviews).\<close>

definition calculateUserRating :: "review list \<Rightarrow> objectId \<Rightarrow> rat \<times> nat" where
  "calculateUserRating rvs userId =
     (case group_ratings (match_ratings rvs userId) of
        [] \<Rightarrow> (0, 0)
      | g # gs \<Rightarrow> (of_int (math_round (fst g * 10)) / 10, snd g))"

definition review_canEdit :: "review \<Rightarrow> objectId \<Rightarrow> bool" where
  "review_canEdit r userId = (reviewer r = userId)"

text \<open>
  The post-save middleware, run after the review is written.  \<open>isNew\<close> is
  \<^verbatim>\<open>this.isNew\<close> and \<open>ratingModified\<close> is \<^verbatim>\<open>this.isModified('rating')\<close>, both as the
  save that triggers the middleware sees them: a document built by \<^verbatim>\<open>new Review\<close> is
  new, and \<^verbatim>\<open>rating\<close> is modified when the save changes its value.
\<close>

definition review_post_save :: "bool \<Rightarrow> bool \<Rightarrow> review \<Rightarrow> db \<Rightarrow> db" where
  "review_post_save isNew ratingModified r d =
    (if ratingModified \<or> isNew then
       (let ratingData = calculateUserRating (reviews d) (reviewee r)
        in d\<lparr>users := findByIdAndUpdate (reviewee r)
                 (\<lambda>u. u\<lparr>user_rating := fst ratingData, totalRatings := snd ratingData\<rparr>) (users d)\<rparr>)
     else d)"

text \<open>\<^verbatim>\<open>save()\<close> of a new review and of a loaded one.\<close>

definition review_insert :: "review \<Rightarrow> db \<Rightarrow> db" where
  "review_insert r d = review_post_save True False r (d\<lparr>reviews := reviews d @ [r]\<rparr>)"

definition review_save :: "review \<Rightarrow> review \<Rightarrow> db \<Rightarrow> db" where
  "review_save orig r d =
     review_post_save False (review_rating r \<noteq> review_rating orig) r
       (d\<lparr>reviews := update_one (\<lambda>x. review_id x = review_id r) r (reviews d)\<rparr>)"

definition review_findById :: "objectId \<Rightarrow> db \<Rightarrow> review option" where
  "review_findById i d = find (\<lambda>r. review_id r = i) (reviews d)"

section \<open>Review routes (src/unnamed/part_000)\<close>

text \<open>The query of \<^verbatim>\<open>Review.findOne\<close> in \<^verbatim>\<open>POST /api/reviews\<close>: no filter on \<^verbatim>\<open>isActive\<close>.\<close>

definition existingReview :: "objectId \<Rightarrow> objectId \<Rightarrow> objectId \<Rightarrow> db \<Rightarrow> review option" where
  "existingReview uid revieweeId swapId d =
    find (\<lambda>r. reviewer r = uid \<and> reviewee r = revieweeId \<and> review_swap r = swapId) (reviews d)"

text \<open>
  \<^verbatim>\<open>POST /api/reviews\<close>.  The unique index on reviewer, reviewee and swap cannot
  reject the insert, since the route has just found no review with that key.
\<close>

definition create_review ::
  "objectId \<Rightarrow> objectId \<Rightarrow> objectId \<Rightarrow> int \<Rightarrow> string \<Rightarrow> db \<Rightarrow> response \<times> db" where
  "create_review uid swapId revieweeId rating cmt d =
    (case swap_findById swapId d of
       None \<Rightarrow> (Reply 404 ''Swap not found'', d)
     | Some s \<Rightarrow>
        if status s \<noteq> Completed then (Reply 400 ''Can only review completed swaps'', d)
        else if \<not> canModify s uid then (Reply 403 ''Not authorized to review this swap'', d)
        else if \<not> ((requester s = revieweeId \<and> swap_owner s = uid) \<or>
                    (swap_owner s = revieweeId \<and> requester s = uid)) then
          (Reply 400 ''Invalid reviewee for this swap'', d)
        else
          (case existingReview uid revieweeId swapId d of
             Some e \<Rightarrow> (Reply 400 ''You have already reviewed this swap'', d)
           | None \<Rightarrow>
              (Reply 201 ''Review created successfully'',
               review_insert
                 \<lparr>review_id = fresh_id (map review_id (reviews d)),
                  reviewer = uid,
                  reviewee = revieweeId,
                  review_swap = swapId,
                  review_rating = rating,
                  comment = cmt,
                  review_isActive = True\<rparr> d)))"

text \<open>\<^verbatim>\<open>PUT /api/reviews/:id\<close>: a field absent from the body is \<open>None\<close>.\<close>

definition update_review ::
  "objectId \<Rightarrow> objectId \<Rightarrow> int option \<Rightarrow> string option \<Rightarrow> db \<Rightarrow> response \<times> db" where
  "update_review uid rid rating cmt d =
    (case review_findById rid d of
       None \<Rightarrow> (Reply 404 ''Review not found'', d)
     | Some r \<Rightarrow>
        if \<not> review_isActive r then (Reply 404 ''Review not found'', d)
        else if \<not> review_canEdit r uid then (Reply 403 ''Not authorized to edit this review'', d)
        else
          (let r1 = (case rating of None \<Rightarrow> r | Some x \<Rightarrow> r\<lparr>review_rating := x\<rparr>);
               r2 = (case cmt of None \<Rightarrow> r1 | Some c \<Rightarrow> r1\<lparr>comment := c\<rparr>)
           in (Reply 200 ''Review updated successfully'', review_save r r2 d)))"

text \<open>\<^verbatim>\<open>DELETE /api/reviews/:id\<close>: the soft delete.\<close>

definition delete_review :: "objectId \<Rightarrow> role \<Rightarrow> objectId \<Rightarrow> db \<Rightarrow> response \<times> db" where
  "delete_review uid rl rid d =
    (case review_findById rid d of
       None \<Rightarrow> (Reply 404 ''Review not found'', d)
     | Some r \<Rightarrow>
        if \<not> review_isActive r then (Reply 404 ''Review not found'', d)
        else if \<not> review_canEdit r uid \<and> rl \<noteq> AdminRole then
          (Reply 403 ''Not authorized to delete this review'', d)
        else (Reply 200 ''Review deleted successfully'',
              review_save r (r\<lparr>review_isActive := False\<rparr>) d))"

section \<open>The router\<close>

text \<open>
  The requests the swap and review routers accept, each with the authenticated user as its
  first argument, and a run of requests, each served at its own time.  No other route of
  the repository writes a swap or a review, apart from the admin soft delete of a review
  (src/routes/admin.js), which does what \<open>DeleteReview\<close> does for an admin.
\<close>

datatype request =
    CreateSwap objectId objectId objectId string
  | AcceptSwap objectId objectId "string option" "string option" "date option"
  | DeclineSwap objectId objectId "string option"
  | CompleteSwap objectId objectId
  | CancelSwap objectId objectId
  | CreateReview objectId objectId objectId int string
  | UpdateReview objectId objectId "int option" "string option"
  | DeleteReview objectId role objectId

fun handle :: "request \<Rightarrow> date \<Rightarrow> db \<Rightarrow> response \<times> db" where
  "handle (CreateSwap uid rid oid msg) now d = create_swap uid rid oid msg now d"
| "handle (AcceptSwap uid sid rm loc dt) now d = accept_swap uid sid rm loc dt now d"
| "handle (DeclineSwap uid sid rm) now d = decline_swap uid sid rm d"
| "handle (CompleteSwap uid sid) now d = complete_swap uid sid now d"
| "handle (CancelSwap uid sid) now d = cancel_swap uid sid d"
| "handle (CreateReview uid swapId revieweeId rating cmt) now d =
     create_review uid swapId revieweeId rating cmt d"
| "handle (UpdateReview uid rid rating cmt) now d = update_review uid rid rating cmt d"
| "handle (DeleteReview uid rl rid) now d = delete_review uid rl rid d"

fun run :: "(request \<times> date) list \<Rightarrow> db \<Rightarrow> db" where
  "run [] d = d"
| "run (q # qs) d = run qs (snd (handle (fst q) (snd q) d))"

text \<open>The terminal states of the swap life cycle.\<close>

definition terminal :: "swap_status \<Rightarrow> bool" where
  "terminal st = (st = Declined \<or> st = Completed \<or> st = Cancelled)"

section \<open>Notions used to state the properties\<close>



text \<open>Two reviews with the same reviewer, reviewee and swap.\<close>

definition same_key :: "review \<Rightarrow> review \<Rightarrow> bool" where
  "same_key r r' =
     (reviewer r = reviewer r' \<and> reviewee r = reviewee r' \<and> review_swap r = review_swap r')"

text \<open>
  What \<^verbatim>\<open>POST /api/reviews\<close> checks before it looks for an existing review: the swap
  is stored and completed, and reviewer and reviewee are its two parties.
\<close>

definition review_swap_ok :: "db \<Rightarrow> review \<Rightarrow> bool" where
  "review_swap_ok d r =
    (case swap_findById (review_swap r) d of
       None \<Rightarrow> False
     | Some s \<Rightarrow> status s = Completed \<and>
         ((requester s = reviewee r \<and> swap_owner s = reviewer r) \<or>
          (swap_owner s = reviewee r \<and> requester s = reviewer r)))"

definition reviews_ok :: "db \<Rightarrow> bool" where
  "reviews_ok d = list_all (review_swap_ok d) (reviews d)"

section \<open>A concrete marketplace\<close>

text \<open>
  Users 1 to 4 own the books 10, 20, 30 and 40; book 50 is an anonymous listing with no
  owner.  Nothing has been swapped or reviewed.
\<close>

definition mk_book :: "string \<Rightarrow> objectId option \<Rightarrow> book" where
  "mk_book t ow = \<lparr>title = t, book_owner = ow, isAvailable = True, book_isActive = True,
                   viewCount = 0, swapCount = 0\<rparr>"

definition mk_user :: "string \<Rightarrow> user" where
  "mk_user n = \<lparr>username = n, user_rating = 0, totalRatings = 0, totalSwaps = 0\<rparr>"

definition db0 :: db where
  "db0 = \<lparr>books = [10 \<mapsto> mk_book ''X'' (Some 1), 20 \<mapsto> mk_book ''Y'' (Some 2),
                   30 \<mapsto> mk_book ''Z'' (Some 3), 40 \<mapsto> mk_book ''W'' (Some 4),
                   50 \<mapsto> mk_book ''V'' None],
          users = [1 \<mapsto> mk_user ''A'', 2 \<mapsto> mk_user ''B'', 3 \<mapsto> mk_user ''C'', 4 \<mapsto> mk_user ''D''],
          swaps = [],
          reviews = []\<rparr>"

text \<open>
  User 2 asks for book 10 and offers book 20 (swap 1); user 3 asks for book 10 and offers
  book 30 (swap 2); user 4 asks for book 20 and offers book 40 (swap 3).  Then user 1
  accepts swap 1 and declines swap 2, and user 2 declines swap 3.
\<close>

definition db1 :: db where
  "db1 = snd (create_swap 2 10 20 ''hi'' 1000 db0)"

definition db2 :: db where
  "db2 = snd (create_swap 3 10 30 ''hi'' 1000 db1)"

definition db3 :: db where
  "db3 = snd (create_swap 4 20 40 ''hi'' 1000 db2)"

definition db4 :: db where
  "db4 = snd (accept_swap 1 1 None None None 2000 db3)"

definition db5 :: db where
  "db5 = snd (decline_swap 1 2 None db4)"

definition db6 :: db where
  "db6 = snd (decline_swap 2 3 None db5)"

text \<open>From \<open>db2\<close>: user 1 accepts swap 2 while swap 1 is still pending.\<close>

definition dbE :: db where
  "dbE = snd (accept_swap 1 2 None None None 2000 db2)"

text \<open>
  From \<open>db1\<close>: user 1 accepts swap 1, user 2 completes it and reviews user 1 with
  rating 4, then soft-deletes that review.
\<close>

definition dbA :: db where
  "dbA = snd (accept_swap 1 1 None None None 2000 db1)"

definition dbC :: db where
  "dbC = snd (complete_swap 2 1 3000 dbA)"

definition dbR :: db where
  "dbR = snd (create_review 2 1 1 4 ''good'' dbC)"

definition dbD :: db where
  "dbD = snd (delete_review 2 UserRole 1 dbR)"

text \<open>Five reviews: three active ones of user 1, a soft-deleted one, and one of user 2.\<close>

definition mk_review ::
  "objectId \<Rightarrow> objectId \<Rightarrow> objectId \<Rightarrow> objectId \<Rightarrow> int \<Rightarrow> string \<Rightarrow> bool \<Rightarrow> review" where
  "mk_review i a b s n c act = \<lparr>review_id = i, reviewer = a, reviewee = b, review_swap = s,
     review_rating = n, comment = c, review_isActive = act\<rparr>"

definition rvs5 :: "review list" where
  "rvs5 = [mk_review 1 2 1 1 4 ''good'' True, mk_review 2 3 1 2 5 [] True,
           mk_review 3 4 1 3 4 [] True, mk_review 4 5 1 4 1 [] False,
           mk_review 5 1 2 1 2 [] True]"

text \<open>Swap 1 as \<open>db1\<close> stores it.\<close>

definition swap1 :: "swap_status \<Rightarrow> swap" where
  "swap1 st = \<lparr>swap_id = 1, requester = 2, swap_owner = 1, requestedBook = 10, offeredBook = 20,
              status = st, message = ''hi'', responseMessage = [], meetingLocation = None,
              meetingDate = None, completedAt = None, expiresAt = 604801000,
              swap_isActive = True\<rparr>"

section \<open>Basic facts\<close>

lemmas model_defs =
  create_swap_def accept_swap_def decline_swap_def complete_swap_def cancel_swap_def
  not_available_def book_canEdit_def existingSwap_def fresh_id_def swap_findById_def
  isOwner_def isRequester_def canModify_def isExpired_def
  swap_accept_def swap_decline_def swap_complete_def swap_cancel_def
  swap_save_def swap_pre_save_def findByIdAndUpdate_def
  create_review_def update_review_def delete_review_def existingReview_def
  review_findById_def review_canEdit_def review_insert_def review_save_def
  review_post_save_def calculateUserRating_def group_ratings_def match_ratings_def
  math_round_def

lemmas scenario_defs =
  db0_def db1_def db2_def db3_def db4_def db5_def db6_def dbE_def dbA_def dbC_def dbR_def dbD_def
  mk_book_def mk_user_def swap1_def mk_review_def rvs5_def

lemma find_update_one_same:
  "find P xs = Some x \<Longrightarrow> P y \<Longrightarrow> find P (update_one P y xs) = Some y"
  by (induction xs) (auto split: if_splits)

lemma find_update_one_other:
  "(\<And>x. Q x \<Longrightarrow> \<not> P x) \<Longrightarrow> \<not> Q y \<Longrightarrow> find Q (update_one P y xs) = find Q xs"
  by (induction xs) auto

lemma findByIdAndUpdate_apply:
  "findByIdAndUpdate i f m j = (if j = i then map_option f (m i) else m j)"
  by (simp add: findByIdAndUpdate_def split: option.splits)

lemma swap_findById_id: "swap_findById sid d = Some s \<Longrightarrow> swap_id s = sid"
  by (auto simp: swap_findById_def dest: find_Some_iff[THEN iffD1])

lemma swaps_pre_save [simp]: "swaps (swap_pre_save s s' d) = swaps d"
  by (simp add: swap_pre_save_def)

lemma swap_save_find:
  assumes "swap_findById sid d = Some s" and "swap_id s' = swap_id s"
  shows "swap_findById sid (swap_save s s' d) = Some s'"
  using assms swap_findById_id[OF assms(1)]
  by (simp add: swap_findById_def swap_save_def Let_def find_update_one_same)

lemma swap_save_find_other:
  assumes "swap_id s' = swap_id s" and "swap_id s \<noteq> sid"
  shows "swap_findById sid (swap_save s s' d) = swap_findById sid d"
proof -
  have "find (\<lambda>x. swap_id x = sid) (update_one (\<lambda>x. swap_id x = swap_id s) s' (swaps d)) =
        find (\<lambda>x. swap_id x = sid) (swaps d)"
    by (rule find_update_one_other) (use assms in auto)
  then show ?thesis
    using assms by (simp add: swap_findById_def swap_save_def Let_def)
qed

text \<open>A stored swap that a route does not rewrite is found unchanged afterwards.\<close>

lemma swap_save_keeps:
  assumes f: "swap_findById sid d = Some s"
    and g: "swap_findById sid2 d = Some s2"
    and i: "swap_id s2' = swap_id s2"
    and n: "status s2 \<noteq> status s"
  shows "swap_findById sid (swap_save s2 s2' d) = Some s"
proof -
  have "sid2 \<noteq> sid" using f g n by auto
  then have "swap_id s2 \<noteq> sid" using swap_findById_id[OF g] by simp
  then show ?thesis using f i by (simp add: swap_save_find_other)
qed

lemma find_append_Some: "find P xs = Some x \<Longrightarrow> find P (xs @ ys) = Some x"
  by (induction xs) (auto split: if_splits)

lemma find_None_conv: "find P xs = None \<longleftrightarrow> (\<forall>x\<in>set xs. \<not> P x)"
  by (induction xs) auto

lemma swaps_review_post_save [simp]: "swaps (review_post_save n m r d) = swaps d"
  by (simp add: review_post_save_def Let_def)

lemma swap_findById_review_post_save [simp]:
  "swap_findById i (review_post_save n m r d) = swap_findById i d"
  by (simp add: swap_findById_def)

lemma swap_findById_reviews_update [simp]:
  "swap_findById i (d\<lparr>reviews := x\<rparr>) = swap_findById i d"
  by (simp add: swap_findById_def)

lemma db1_swap1: "swap_findById 1 db1 = Some (swap1 Pending)"
  by (simp add: scenario_defs model_defs)

lemma dbA_swap1: "swap_findById 1 dbA = Some (swap1 Accepted)"
  by (simp add: scenario_defs model_defs)

text \<open>
  What \<^verbatim>\<open>POST /api/swaps\<close> stores when it succeeds: one new pending swap whose two
  parties differ and whose two books differ.
\<close>

lemma create_swap_new:
  assumes "create_swap uid rid oid msg now d = (Reply 201 m, d')"
  shows "\<exists>s. d' = d\<lparr>swaps := swaps d @ [s]\<rparr> \<and> status s = Pending \<and> requester s = uid \<and>
             requestedBook s = rid \<and> offeredBook s = oid \<and>
             requester s \<noteq> swap_owner s \<and> requestedBook s \<noteq> offeredBook s"
  using assms
  by (auto simp: create_swap_def book_canEdit_def not_available_def
           split: if_splits option.splits bool.splits)

section \<open>Terminal states\<close>

lemma handle_keeps_terminal:
  assumes f: "swap_findById sid d = Some s" and t: "terminal (status s)"
  shows "swap_findById sid (snd (handle rq now d)) = Some s"
proof (cases rq)
  case (CreateSwap uid rid oid msg)
  then show ?thesis using f
    by (auto simp: create_swap_def swap_findById_def find_append_Some
             split: option.splits bool.splits)
next
  case (AcceptSwap uid sid2 rm loc dt)
  show ?thesis
  proof (cases "swap_findById sid2 d")
    case None
    then show ?thesis using f AcceptSwap by (simp add: accept_swap_def)
  next
    case (Some s2)
    show ?thesis
    proof (cases "status s2 = Pending")
      case True
      then have n: "status s2 \<noteq> status s" using t by (auto simp: terminal_def)
      show ?thesis using f AcceptSwap Some
        by (auto simp: accept_swap_def swap_accept_def Let_def
                 intro!: swap_save_keeps[OF f Some _ n] split: option.splits)
    next
      case False
      then show ?thesis using f AcceptSwap Some by (simp add: accept_swap_def)
    qed
  qed
next
  case (DeclineSwap uid sid2 rm)
  show ?thesis
  proof (cases "swap_findById sid2 d")
    case None
    then show ?thesis using f DeclineSwap by (simp add: decline_swap_def)
  next
    case (Some s2)
    show ?thesis
    proof (cases "status s2 = Pending")
      case True
      then have n: "status s2 \<noteq> status s" using t by (auto simp: terminal_def)
      show ?thesis using f DeclineSwap Some
        by (auto simp: decline_swap_def swap_decline_def intro!: swap_save_keeps[OF f Some _ n])
    next
      case False
      then show ?thesis using f DeclineSwap Some by (simp add: decline_swap_def)
    qed
  qed
next
  case (CompleteSwap uid sid2)
  show ?thesis
  proof (cases "swap_findById sid2 d")
    case None
    then show ?thesis using f CompleteSwap by (simp add: complete_swap_def)
  next
    case (Some s2)
    show ?thesis
    proof (cases "status s2 = Accepted")
      case True
      then have n: "status s2 \<noteq> status s" using t by (auto simp: terminal_def)
      show ?thesis using f CompleteSwap Some
        by (auto simp: complete_swap_def swap_complete_def intro!: swap_save_keeps[OF f Some _ n])
    next
      case False
      then show ?thesis using f CompleteSwap Some by (simp add: complete_swap_def)
    qed
  qed
next
  case (CancelSwap uid sid2)
  show ?thesis
  proof (cases "swap_findById sid2 d")
    case None
    then show ?thesis using f CancelSwap by (simp add: cancel_swap_def)
  next
    case (Some s2)
    show ?thesis
    proof (cases "status s2 = Pending \<or> status s2 = Accepted")
      case True
      then have n: "status s2 \<noteq> status s" using t by (auto simp: terminal_def)
      show ?thesis using f CancelSwap Some
        by (auto simp: cancel_swap_def swap_cancel_def intro!: swap_save_keeps[OF f Some _ n])
    next
      case False
      then show ?thesis using f CancelSwap Some by (simp add: cancel_swap_def)
    qed
  qed
next
  case (CreateReview uid swapId revieweeId rating cmt)
  then show ?thesis using f
    by (simp add: create_review_def review_insert_def split: option.splits)
next
  case (UpdateReview uid rid rating cmt)
  then show ?thesis using f
    by (simp add: update_review_def review_save_def Let_def split: option.splits)
next
  case (DeleteReview uid rl rid)
  then show ?thesis using f
    by (simp add: delete_review_def review_save_def split: option.splits)
qed

lemma run_keeps_terminal:
  "swap_findById sid d = Some s \<Longrightarrow> terminal (status s) \<Longrightarrow> swap_findById sid (run qs d) = Some s"
  by (induction qs arbitrary: d) (simp_all add: handle_keeps_terminal)

text \<open>
  C2, as stated, fails.  In \<open>db5\<close> swap 2 is declined; user 3, its requester and not its
  owner, tries to accept it.  The route checks the actor before the status, so the reply
  is 403 ``Only the book owner can accept swap requests'' and not the wrong-state reply
  400 ``This swap request is no longer pending''.
\<close>

theorem C2_counterexample:
  "map_option status (swap_findById 2 db5) = Some Declined \<and>
   accept_swap 3 2 None None None 2000 db5 =
     (Reply 403 ''Only the book owner can accept swap requests'', db5) \<and>
   fst (accept_swap 3 2 None None None 2000 db5) \<noteq> Reply 400 ''This swap request is no longer pending''"
  by (simp add: scenario_defs model_defs)

text \<open>
  C2, amended.  For a stored swap in a terminal state (declined, completed or cancelled),
  every accept, decline, complete or cancel request is rejected and returns the database
  unchanged: with the route's wrong-state reply (400) when the actor passes the route's
  actor check, and with 403 otherwise.  After any run of swap and review requests the swap
  is stored exactly as before, so no request moves it out of its terminal state.
\<close>

theorem C2_terminal_rejected:
  assumes f: "swap_findById sid d = Some s"
    and t: "status s = Declined \<or> status s = Completed \<or> status s = Cancelled"
  shows "accept_swap uid sid rm loc dt now d =
           (if swap_owner s = uid then Reply 400 ''This swap request is no longer pending''
            else Reply 403 ''Only the book owner can accept swap requests'', d) \<and>
         decline_swap uid sid rm d =
           (if swap_owner s = uid then Reply 400 ''This swap request is no longer pending''
            else Reply 403 ''Only the book owner can decline swap requests'', d) \<and>
         complete_swap uid sid now d =
           (if requester s = uid \<or> swap_owner s = uid
            then Reply 400 ''Only accepted swaps can be completed''
            else Reply 403 ''Not authorized to complete this swap'', d) \<and>
         cancel_swap uid sid d =
           (if requester s = uid then Reply 400 ''This swap cannot be cancelled''
            else Reply 403 ''Only the requester can cancel swap requests'', d) \<and>
         (\<forall>qs. swap_findById sid (run qs d) = Some s)"
proof -
  have "terminal (status s)" using t by (simp add: terminal_def)
  then have "\<forall>qs. swap_findById sid (run qs d) = Some s"
    using f by (simp add: run_keeps_terminal)
  then show ?thesis
    using f t
    by (auto simp: accept_swap_def decline_swap_def complete_swap_def cancel_swap_def
                   isOwner_def canModify_def isRequester_def)
qed

theorem C2_terminal_rejected_witness:
  "swap_findById 1 dbC = Some (swap1 Completed\<lparr>completedAt := Some 3000\<rparr>) \<and>
   accept_swap 1 1 None None None 4000 dbC =
     (Reply 400 ''This swap request is no longer pending'', dbC) \<and>
   decline_swap 2 1 None dbC =
     (Reply 403 ''Only the book owner can decline swap requests'', dbC) \<and>
   complete_swap 2 1 4000 dbC = (Reply 400 ''Only accepted swaps can be completed'', dbC) \<and>
   cancel_swap 2 1 dbC = (Reply 400 ''This swap cannot be cancelled'', dbC) \<and>
   swap_findById 1 (run [(CancelSwap 2 1, 4000), (CreateSwap 3 10 30 ''hi'', 5000)] dbC) =
     Some (swap1 Completed\<lparr>completedAt := Some 3000\<rparr>)"
proof -
  have f: "swap_findById 1 dbC = Some (swap1 Completed\<lparr>completedAt := Some 3000\<rparr>)"
    by (simp add: scenario_defs model_defs)
  have t: "status (swap1 Completed\<lparr>completedAt := Some 3000\<rparr>) = Declined \<or>
           status (swap1 Completed\<lparr>completedAt := Some 3000\<rparr>) = Completed \<or>
           status (swap1 Completed\<lparr>completedAt := Some 3000\<rparr>) = Cancelled"
    by (simp add: swap1_def)
  have r: "requester (swap1 Completed\<lparr>completedAt := Some 3000\<rparr>) = 2"
    "swap_owner (swap1 Completed\<lparr>completedAt := Some 3000\<rparr>) = 1"
    by (simp_all add: swap1_def)
  note a = C2_terminal_rejected[OF f t, of 1 None None None 4000, unfolded r]
  note b = C2_terminal_rejected[OF f t, of 2 None None None 4000, unfolded r]
  have q: "swap_findById 1 (run [(CancelSwap 2 1, 4000), (CreateSwap 3 10 30 ''hi'', 5000)] dbC) =
     Some (swap1 Completed\<lparr>completedAt := Some 3000\<rparr>)"
    using a by blast
  have a1: "accept_swap 1 1 None None None 4000 dbC =
     (Reply 400 ''This swap request is no longer pending'', dbC)"
    using a by simp
  have b2: "decline_swap 2 1 None dbC =
     (Reply 403 ''Only the book owner can decline swap requests'', dbC)"
    using b by simp
  have b3: "complete_swap 2 1 4000 dbC = (Reply 400 ''Only accepted swaps can be completed'', dbC)"
    using b by simp
  have b4: "cancel_swap 2 1 dbC = (Reply 400 ''This swap cannot be cancelled'', dbC)"
    using b by simp
  show ?thesis by (intro conjI f a1 b2 b3 b4 q)
qed


section \<open>Accepting a swap\<close>

text \<open>
  C7.  A pending swap whose \<open>expiresAt\<close> lies in the past: an accept attempt by the owner
  is answered with 400 ``This swap request has expired'', and the database is returned
  as it was, so the stored status is still pending and no book has changed.
\<close>

theorem C7_accept_expired_rejected:
  assumes "swap_findById sid d = Some s"
    and "status s = Pending"
    and "expiresAt s < now"
    and "swap_owner s = uid"
  shows "accept_swap uid sid rm loc dt now d = (Reply 400 ''This swap request has expired'', d)"
  using assms by (simp add: accept_swap_def isOwner_def isExpired_def)

theorem C7_accept_expired_rejected_witness:
  "swap_findById 1 db1 = Some (swap1 Pending) \<and> status (swap1 Pending) = Pending \<and>
   expiresAt (swap1 Pending) < 700000000 \<and> swap_owner (swap1 Pending) = 1 \<and>
   accept_swap 1 1 None None None 700000000 db1 =
     (Reply 400 ''This swap request has expired'', db1)"
proof -
  have p: "status (swap1 Pending) = Pending" by (simp add: swap1_def)
  have e: "expiresAt (swap1 Pending) < 700000000" by (simp add: swap1_def)
  have o: "swap_owner (swap1 Pending) = 1" by (simp add: swap1_def)
  show ?thesis
    by (intro conjI db1_swap1 p e o C7_accept_expired_rejected[OF db1_swap1 p e o])
qed

text \<open>
  C4.  A pending swap whose \<open>expiresAt\<close> has not passed (\<open>isExpired\<close> is false, that is
  \<open>expiresAt\<close> is not before \<open>now\<close>): an accept by the swap's owner is answered with 200,
  the stored swap has status accepted, and the requested and the offered book are the
  books stored before with \<open>isAvailable\<close> set to false.
\<close>

theorem C4_accept_pending:
  assumes f: "swap_findById sid d = Some s"
    and p: "status s = Pending"
    and e: "\<not> expiresAt s < now"
    and o: "swap_owner s = uid"
  shows "fst (accept_swap uid sid rm loc dt now d) = Reply 200 ''Swap request accepted successfully'' \<and>
         (\<exists>s'. swap_findById sid (snd (accept_swap uid sid rm loc dt now d)) = Some s' \<and>
               status s' = Accepted) \<and>
         books (snd (accept_swap uid sid rm loc dt now d)) (requestedBook s) =
           map_option (\<lambda>b. b\<lparr>isAvailable := False\<rparr>) (books d (requestedBook s)) \<and>
         books (snd (accept_swap uid sid rm loc dt now d)) (offeredBook s) =
           map_option (\<lambda>b. b\<lparr>isAvailable := False\<rparr>) (books d (offeredBook s))"
proof -
  define s' where "s' =
    (let s1 = s\<lparr>status := Accepted, responseMessage := (case rm of None \<Rightarrow> [] | Some m \<Rightarrow> m)\<rparr>;
         s2 = (case loc of None \<Rightarrow> s1 | Some l \<Rightarrow> if l = [] then s1 else s1\<lparr>meetingLocation := Some l\<rparr>);
         s3 = (case dt of None \<Rightarrow> s2 | Some t \<Rightarrow> s2\<lparr>meetingDate := Some t\<rparr>)
     in s3)"
  have st: "status s' = Accepted" and ids: "swap_id s' = swap_id s"
    and rb: "requestedBook s' = requestedBook s" and ob: "offeredBook s' = offeredBook s"
    by (simp_all add: s'_def Let_def split: option.splits)
  have acc: "accept_swap uid sid rm loc dt now d =
      (Reply 200 ''Swap request accepted successfully'', swap_save s s' d)"
    using f p e o
    by (simp add: accept_swap_def isOwner_def isExpired_def swap_accept_def s'_def Let_def)
  have bk: "books (swap_save s s' d) =
      findByIdAndUpdate (offeredBook s) (\<lambda>b. b\<lparr>isAvailable := False\<rparr>)
        (findByIdAndUpdate (requestedBook s) (\<lambda>b. b\<lparr>isAvailable := False\<rparr>) (books d))"
    using p st by (simp add: swap_save_def Let_def swap_pre_save_def rb ob)
  have 1: "swap_findById sid (swap_save s s' d) = Some s'"
    using f ids by (rule swap_save_find)
  have 2: "books (swap_save s s' d) (requestedBook s) =
           map_option (\<lambda>b. b\<lparr>isAvailable := False\<rparr>) (books d (requestedBook s))"
    by (cases "books d (requestedBook s)") (auto simp: bk findByIdAndUpdate_apply)
  have 3: "books (swap_save s s' d) (offeredBook s) =
           map_option (\<lambda>b. b\<lparr>isAvailable := False\<rparr>) (books d (offeredBook s))"
    by (cases "books d (requestedBook s)") (auto simp: bk findByIdAndUpdate_apply)
  show ?thesis using 1 2 3 st by (simp add: acc)
qed

theorem C4_accept_pending_witness:
  "swap_findById 1 db1 = Some (swap1 Pending) \<and> status (swap1 Pending) = Pending \<and>
   \<not> expiresAt (swap1 Pending) < 2000 \<and> swap_owner (swap1 Pending) = 1 \<and>
   fst (accept_swap 1 1 None None None 2000 db1) = Reply 200 ''Swap request accepted successfully'' \<and>
   swap_findById 1 dbA = Some (swap1 Accepted) \<and>
   map_option isAvailable (books db1 10) = Some True \<and>
   map_option isAvailable (books db1 20) = Some True \<and>
   map_option isAvailable (books dbA 10) = Some False \<and>
   map_option isAvailable (books dbA 20) = Some False"
proof -
  have p: "status (swap1 Pending) = Pending" by (simp add: swap1_def)
  have e: "\<not> expiresAt (swap1 Pending) < 2000" by (simp add: swap1_def)
  have o: "swap_owner (swap1 Pending) = 1" by (simp add: swap1_def)
  note t = C4_accept_pending[OF db1_swap1 p e o, of None None None, folded dbA_def]
  have r: "requestedBook (swap1 Pending) = 10" "offeredBook (swap1 Pending) = 20"
    by (simp_all add: swap1_def)
  have b: "map_option isAvailable (books db1 10) = Some True"
    "map_option isAvailable (books db1 20) = Some True"
    by (simp_all add: scenario_defs model_defs)
  have a: "swap_findById 1 dbA = Some (swap1 Accepted)"
    by (simp add: scenario_defs model_defs)
  have c: "map_option isAvailable (books dbA 10) = Some False"
    "map_option isAvailable (books dbA 20) = Some False"
    using t b by (auto simp: r)
  show ?thesis using t by (intro conjI db1_swap1 p e o a b c) simp
qed

section \<open>Completing a swap\<close>

lemma swap_save_completed:
  assumes "status s' = Completed" "status s \<noteq> Completed"
  shows "books (swap_save s s' d) =
      findByIdAndUpdate (offeredBook s') (\<lambda>b. b\<lparr>swapCount := swapCount b + 1\<rparr>)
        (findByIdAndUpdate (requestedBook s') (\<lambda>b. b\<lparr>swapCount := swapCount b + 1\<rparr>) (books d))"
    and "users (swap_save s s' d) =
      findByIdAndUpdate (swap_owner s') (\<lambda>u. u\<lparr>totalSwaps := totalSwaps u + 1\<rparr>)
        (findByIdAndUpdate (requester s') (\<lambda>u. u\<lparr>totalSwaps := totalSwaps u + 1\<rparr>) (users d))"
  using assms by (simp_all add: swap_save_def Let_def swap_pre_save_def)

text \<open>
  C3.  A stored swap in status accepted, with two different books and two different
  parties (what \<open>create_swap_new\<close> shows of every swap the create route stores), completed
  by its requester or its owner: the reply is 200; the stored swap is the old one with
  status completed and \<open>completedAt\<close> set to the time of the request; each of the two
  referenced books has \<open>swapCount\<close> one higher and every other book is as before; each of
  the two referenced users has \<open>totalSwaps\<close> one higher and every other user is as
  before.  Any further complete request on the swap, by anyone and at any time, is
  rejected (400 for a party of the swap, 403 for anyone else) and returns the database
  unchanged, so no counter is incremented a second time.
\<close>

theorem C3_complete_accepted:
  assumes f: "swap_findById sid d = Some s"
    and a: "status s = Accepted"
    and u: "requester s = uid \<or> swap_owner s = uid"
    and nb: "requestedBook s \<noteq> offeredBook s"
    and nu: "requester s \<noteq> swap_owner s"
    and c: "complete_swap uid sid now d = (r, d')"
  shows "r = Reply 200 ''Swap marked as completed'' \<and>
         swap_findById sid d' = Some (s\<lparr>status := Completed, completedAt := Some now\<rparr>) \<and>
         (\<forall>i. books d' i =
            (if i = requestedBook s \<or> i = offeredBook s
             then map_option (\<lambda>b. b\<lparr>swapCount := swapCount b + 1\<rparr>) (books d i)
             else books d i)) \<and>
         (\<forall>i. users d' i =
            (if i = requester s \<or> i = swap_owner s
             then map_option (\<lambda>x. x\<lparr>totalSwaps := totalSwaps x + 1\<rparr>) (users d i)
             else users d i)) \<and>
         (\<forall>uid' now'. complete_swap uid' sid now' d' =
            (if requester s = uid' \<or> swap_owner s = uid'
             then Reply 400 ''Only accepted swaps can be completed''
             else Reply 403 ''Not authorized to complete this swap'', d'))"
proof -
  let ?s' = "s\<lparr>status := Completed, completedAt := Some now\<rparr>"
  have "complete_swap uid sid now d = (Reply 200 ''Swap marked as completed'', swap_save s ?s' d)"
    using f a u by (simp add: complete_swap_def canModify_def swap_complete_def)
  with c have r: "r = Reply 200 ''Swap marked as completed''" and d': "d' = swap_save s ?s' d"
    by simp_all
  have 1: "swap_findById sid d' = Some ?s'"
    unfolding d' by (rule swap_save_find[OF f]) simp
  have bk: "books d' i =
            (if i = requestedBook s \<or> i = offeredBook s
             then map_option (\<lambda>b. b\<lparr>swapCount := swapCount b + 1\<rparr>) (books d i)
             else books d i)" for i
    using nb a by (simp add: d' swap_save_completed findByIdAndUpdate_apply)
  have us: "users d' i =
            (if i = requester s \<or> i = swap_owner s
             then map_option (\<lambda>x. x\<lparr>totalSwaps := totalSwaps x + 1\<rparr>) (users d i)
             else users d i)" for i
    using nu a by (simp add: d' swap_save_completed findByIdAndUpdate_apply)
  have again: "complete_swap uid' sid now' d' =
            (if requester s = uid' \<or> swap_owner s = uid'
             then Reply 400 ''Only accepted swaps can be completed''
             else Reply 403 ''Not authorized to complete this swap'', d')" for uid' now'
    using 1 by (simp add: complete_swap_def canModify_def)
  show ?thesis using r 1 bk us again by blast
qed

theorem C3_complete_accepted_witness:
  "swap_findById 1 dbA = Some (swap1 Accepted) \<and>
   complete_swap 2 1 3000 dbA = (Reply 200 ''Swap marked as completed'', dbC) \<and>
   swap_findById 1 dbC = Some (swap1 Accepted\<lparr>status := Completed, completedAt := Some 3000\<rparr>) \<and>
   map_option swapCount (books dbA 10) = Some 0 \<and> map_option swapCount (books dbC 10) = Some 1 \<and>
   map_option swapCount (books dbA 20) = Some 0 \<and> map_option swapCount (books dbC 20) = Some 1 \<and>
   books dbC 30 = books dbA 30 \<and>
   map_option totalSwaps (users dbA 1) = Some 0 \<and> map_option totalSwaps (users dbC 1) = Some 1 \<and>
   map_option totalSwaps (users dbA 2) = Some 0 \<and> map_option totalSwaps (users dbC 2) = Some 1 \<and>
   users dbC 3 = users dbA 3 \<and>
   complete_swap 1 1 4000 dbC = (Reply 400 ''Only accepted swaps can be completed'', dbC)"
proof -
  have a: "status (swap1 Accepted) = Accepted" by (simp add: swap1_def)
  have u: "requester (swap1 Accepted) = 2 \<or> swap_owner (swap1 Accepted) = 2"
    by (simp add: swap1_def)
  have nb: "requestedBook (swap1 Accepted) \<noteq> offeredBook (swap1 Accepted)"
    by (simp add: swap1_def)
  have nu: "requester (swap1 Accepted) \<noteq> swap_owner (swap1 Accepted)"
    by (simp add: swap1_def)
  have c: "complete_swap 2 1 3000 dbA = (Reply 200 ''Swap marked as completed'', dbC)"
    using dbA_swap1 by (simp add: dbC_def complete_swap_def canModify_def swap1_def)
  note t = C3_complete_accepted[OF dbA_swap1 a u nb nu c]
  have p: "requestedBook (swap1 Accepted) = 10" "offeredBook (swap1 Accepted) = 20"
    "requester (swap1 Accepted) = 2" "swap_owner (swap1 Accepted) = 1"
    by (simp_all add: swap1_def)
  have b0: "map_option swapCount (books dbA 10) = Some 0"
    "map_option swapCount (books dbA 20) = Some 0"
    "map_option totalSwaps (users dbA 1) = Some 0"
    "map_option totalSwaps (users dbA 2) = Some 0"
    by (simp_all add: scenario_defs model_defs)
  have s: "swap_findById 1 dbC =
      Some (swap1 Accepted\<lparr>status := Completed, completedAt := Some 3000\<rparr>)"
    using t by blast
  have bk: "books dbC i = (if i = 10 \<or> i = 20
      then map_option (\<lambda>b. b\<lparr>swapCount := swapCount b + 1\<rparr>) (books dbA i) else books dbA i)" for i
    using t by (simp add: p)
  have us: "users dbC i = (if i = 2 \<or> i = 1
      then map_option (\<lambda>x. x\<lparr>totalSwaps := totalSwaps x + 1\<rparr>) (users dbA i) else users dbA i)" for i
    using t by (simp add: p)
  have b1: "map_option swapCount (books dbC 10) = Some 1"
    "map_option swapCount (books dbC 20) = Some 1" "books dbC 30 = books dbA 30"
    using b0 by (auto simp: bk)
  have u1: "map_option totalSwaps (users dbC 1) = Some 1"
    "map_option totalSwaps (users dbC 2) = Some 1" "users dbC 3 = users dbA 3"
    using b0 by (auto simp: us)
  have again: "complete_swap 1 1 4000 dbC = (Reply 400 ''Only accepted swaps can be completed'', dbC)"
    using t by (simp add: p)
  show ?thesis by (intro conjI dbA_swap1 c s b0 b1 u1 again)
qed

section \<open>Declining a swap\<close>

text \<open>
  C5, as stated, fails.  In \<open>db4\<close> book 10 is unavailable, because swap 1 on it has been
  accepted, and swap 2, which asks for the same book, is still pending.  Its owner
  declines swap 2: the pre-save middleware writes \<open>isAvailable = true\<close> on both books of
  the declined swap, so book 10 is available again.
\<close>

theorem C5_counterexample:
  "map_option status (swap_findById 2 db4) = Some Pending \<and>
   map_option requestedBook (swap_findById 2 db4) = Some 10 \<and>
   map_option isAvailable (books db4 10) = Some False \<and>
   fst (decline_swap 1 2 None db4) = Reply 200 ''Swap request declined'' \<and>
   map_option isAvailable (books (snd (decline_swap 1 2 None db4)) 10) = Some True"
  by (simp add: scenario_defs model_defs)

lemma swap_save_declined:
  assumes "status s' = Declined" "status s \<noteq> Declined"
  shows "books (swap_save s s' d) =
      findByIdAndUpdate (offeredBook s') (\<lambda>b. b\<lparr>isAvailable := True\<rparr>)
        (findByIdAndUpdate (requestedBook s') (\<lambda>b. b\<lparr>isAvailable := True\<rparr>) (books d))"
    and "users (swap_save s s' d) = users d"
    and "reviews (swap_save s s' d) = reviews d"
  using assms by (simp_all add: swap_save_def Let_def swap_pre_save_def)

text \<open>
  C5, amended.  A stored pending swap declined by its owner: the reply is 200, the stored
  swap is the old one with status declined and the response message, and the pre-save
  middleware sets \<open>isAvailable\<close> to true on the requested and the offered book.  Every
  other field of those two books, every other book, the users and the reviews are as
  before; when both referenced books were available before the decline, no book changes.
\<close>

theorem C5_decline_pending:
  assumes f: "swap_findById sid d = Some s"
    and p: "status s = Pending"
    and o: "swap_owner s = uid"
    and c: "decline_swap uid sid rm d = (r, d')"
  shows "r = Reply 200 ''Swap request declined'' \<and>
         swap_findById sid d' =
           Some (s\<lparr>status := Declined, responseMessage := (case rm of None \<Rightarrow> [] | Some m \<Rightarrow> m)\<rparr>) \<and>
         (\<forall>i. books d' i =
            (if i = requestedBook s \<or> i = offeredBook s
             then map_option (\<lambda>b. b\<lparr>isAvailable := True\<rparr>) (books d i)
             else books d i)) \<and>
         users d' = users d \<and> reviews d' = reviews d \<and>
         ((\<forall>b. books d (requestedBook s) = Some b \<longrightarrow> isAvailable b) \<and>
          (\<forall>b. books d (offeredBook s) = Some b \<longrightarrow> isAvailable b) \<longrightarrow> books d' = books d)"
proof -
  let ?s' = "s\<lparr>status := Declined, responseMessage := (case rm of None \<Rightarrow> [] | Some m \<Rightarrow> m)\<rparr>"
  have "decline_swap uid sid rm d = (Reply 200 ''Swap request declined'', swap_save s ?s' d)"
    using f p o by (simp add: decline_swap_def isOwner_def swap_decline_def)
  with c have r: "r = Reply 200 ''Swap request declined''" and d': "d' = swap_save s ?s' d"
    by simp_all
  have 1: "swap_findById sid d' = Some ?s'"
    unfolding d' by (rule swap_save_find[OF f]) simp
  have bk: "books d' i =
            (if i = requestedBook s \<or> i = offeredBook s
             then map_option (\<lambda>b. b\<lparr>isAvailable := True\<rparr>) (books d i)
             else books d i)" for i
    using p by (cases "books d i") (auto simp: d' swap_save_declined findByIdAndUpdate_apply)
  have ur: "users d' = users d" "reviews d' = reviews d"
    using p by (simp_all add: d' swap_save_declined)
  have same: "books d' = books d"
    if "\<forall>b. books d (requestedBook s) = Some b \<longrightarrow> isAvailable b"
      and "\<forall>b. books d (offeredBook s) = Some b \<longrightarrow> isAvailable b"
  proof
    fix i
    show "books d' i = books d i"
      using that by (cases "books d i") (auto simp: bk)
  qed
  show ?thesis using r 1 bk ur same by blast
qed

theorem C5_decline_pending_witness:
  "swap_findById 1 db1 = Some (swap1 Pending) \<and>
   fst (decline_swap 1 1 (Some ''no'') db1) = Reply 200 ''Swap request declined'' \<and>
   swap_findById 1 (snd (decline_swap 1 1 (Some ''no'') db1)) =
     Some (swap1 Pending\<lparr>status := Declined, responseMessage := ''no''\<rparr>) \<and>
   map_option isAvailable (books db1 10) = Some True \<and>
   map_option isAvailable (books db1 20) = Some True \<and>
   books (snd (decline_swap 1 1 (Some ''no'') db1)) = books db1 \<and>
   users (snd (decline_swap 1 1 (Some ''no'') db1)) = users db1"
proof -
  have p: "status (swap1 Pending) = Pending" by (simp add: swap1_def)
  have o: "swap_owner (swap1 Pending) = 1" by (simp add: swap1_def)
  have c: "decline_swap 1 1 (Some ''no'') db1 =
      (fst (decline_swap 1 1 (Some ''no'') db1), snd (decline_swap 1 1 (Some ''no'') db1))"
    by simp
  note t = C5_decline_pending[OF db1_swap1 p o c]
  have b: "map_option isAvailable (books db1 10) = Some True"
    "map_option isAvailable (books db1 20) = Some True"
    by (simp_all add: scenario_defs model_defs)
  have av: "\<forall>b. books db1 (requestedBook (swap1 Pending)) = Some b \<longrightarrow> isAvailable b"
    "\<forall>b. books db1 (offeredBook (swap1 Pending)) = Some b \<longrightarrow> isAvailable b"
    using b by (auto simp: swap1_def)
  have 1: "fst (decline_swap 1 1 (Some ''no'') db1) = Reply 200 ''Swap request declined''"
    using t by blast
  have 2: "swap_findById 1 (snd (decline_swap 1 1 (Some ''no'') db1)) =
     Some (swap1 Pending\<lparr>status := Declined, responseMessage := ''no''\<rparr>)"
    using t by simp
  have 3: "books (snd (decline_swap 1 1 (Some ''no'') db1)) = books db1"
    using t av by blast
  have 4: "users (snd (decline_swap 1 1 (Some ''no'') db1)) = users db1"
    using t by blast
  show ?thesis by (intro conjI db1_swap1 1 2 3 4 b)
qed

section \<open>Creating a swap\<close>

text \<open>
  C6, as stated, fails.  The duplicate check of the create route looks for a swap in
  status pending only, and it runs after the book checks.

  In \<open>db6\<close> swap 1, from user 2 for book 10 against book 20, is accepted, and both books
  are available again, because a declined swap on each of them has reset the flag.  User 2
  sends the same request once more: the reply is 201 and a second swap for the same
  triple is stored.

  In \<open>dbE\<close> swap 1 is pending, and book 10 is unavailable, because swap 2 on it has been
  accepted.  User 2 sends the same request once more: the reply is the book check's 400
  ``Requested book is not available'', not the duplicate reply.
\<close>

theorem C6_counterexample:
  "map_option status (swap_findById 1 db6) = Some Accepted \<and>
   map_option requester (swap_findById 1 db6) = Some 2 \<and>
   map_option requestedBook (swap_findById 1 db6) = Some 10 \<and>
   map_option offeredBook (swap_findById 1 db6) = Some 20 \<and>
   fst (create_swap 2 10 20 ''again'' 3000 db6) = Reply 201 ''Swap request sent successfully'' \<and>
   length (swaps (snd (create_swap 2 10 20 ''again'' 3000 db6))) = length (swaps db6) + 1 \<and>
   map_option status (swap_findById 1 dbE) = Some Pending \<and>
   map_option requester (swap_findById 1 dbE) = Some 2 \<and>
   map_option requestedBook (swap_findById 1 dbE) = Some 10 \<and>
   map_option offeredBook (swap_findById 1 dbE) = Some 20 \<and>
   create_swap 2 10 20 ''again'' 3000 dbE = (Reply 400 ''Requested book is not available'', dbE)"
  by (simp add: scenario_defs model_defs)

text \<open>
  C6, amended.  A create request that passes the checks before the duplicate check (both
  books are stored, active and available; the requester owns the offered book and someone
  else owns the requested one), when an active swap in status pending is stored for the
  same requester, requested book and offered book: the reply is 400 ``You already have a
  pending swap request for these books'' and the database is returned unchanged.
\<close>

theorem C6_duplicate_pending:
  assumes rb: "books d rid = Some b1" "book_isActive b1" "isAvailable b1"
    and ob: "books d oid = Some b2" "book_isActive b2" "isAvailable b2"
    and own: "book_owner b2 = Some uid" "book_owner b1 = Some w" "w \<noteq> uid"
    and ex: "s \<in> set (swaps d)" "requester s = uid" "requestedBook s = rid" "offeredBook s = oid"
            "status s = Pending" "swap_isActive s"
  shows "create_swap uid rid oid msg now d =
           (Reply 400 ''You already have a pending swap request for these books'', d)"
proof -
  have "existingSwap uid rid oid d \<noteq> None"
    using ex by (auto simp: existingSwap_def find_None_conv)
  then obtain e where "existingSwap uid rid oid d = Some e" by auto
  then show ?thesis
    using rb ob own by (simp add: create_swap_def not_available_def book_canEdit_def)
qed

theorem C6_duplicate_pending_witness:
  "books db1 10 = Some (mk_book ''X'' (Some 1)) \<and> books db1 20 = Some (mk_book ''Y'' (Some 2)) \<and>
   swap1 Pending \<in> set (swaps db1) \<and>
   create_swap 2 10 20 ''again'' 3000 db1 =
     (Reply 400 ''You already have a pending swap request for these books'', db1)"
proof -
  have b1: "books db1 10 = Some (mk_book ''X'' (Some 1))"
    and b2: "books db1 20 = Some (mk_book ''Y'' (Some 2))"
    by (simp_all add: scenario_defs model_defs)
  have x: "book_isActive (mk_book ''X'' (Some 1))" "isAvailable (mk_book ''X'' (Some 1))"
    and y: "book_isActive (mk_book ''Y'' (Some 2))" "isAvailable (mk_book ''Y'' (Some 2))"
    and own: "book_owner (mk_book ''Y'' (Some 2)) = Some 2"
      "book_owner (mk_book ''X'' (Some 1)) = Some 1" "(1::nat) \<noteq> 2"
    by (simp_all add: mk_book_def)
  have m: "swap1 Pending \<in> set (swaps db1)"
    by (simp add: scenario_defs model_defs)
  have s: "requester (swap1 Pending) = 2" "requestedBook (swap1 Pending) = 10"
    "offeredBook (swap1 Pending) = 20" "status (swap1 Pending) = Pending"
    "swap_isActive (swap1 Pending)"
    by (simp_all add: swap1_def)
  show ?thesis
    by (intro conjI b1 b2 m C6_duplicate_pending[OF b1 x b2 y own m s])
qed

text \<open>
  C9, as stated, fails.  Book 50 has no owner, and user 2 asks for it offering book 30,
  which belongs to user 3.  The check of the offered book runs first and answers 403
  ``You can only offer books you own'': \<open>canEdit\<close> is never called on book 50, and the
  reply is one of the defined errors, not the server error.
\<close>

theorem C9_counterexample:
  "map_option book_owner (books db0 50) = Some None \<and>
   create_swap 2 50 30 ''hi'' 1000 db0 = (Reply 403 ''You can only offer books you own'', db0) \<and>
   fst (create_swap 2 50 30 ''hi'' 1000 db0) \<noteq> Reply 500 ''Server error while creating swap request''"
  by (simp add: scenario_defs model_defs)

text \<open>
  C9, amended.  A create request whose two books are stored, active and available, where
  the offered book has no owner, or the requester owns the offered book and the requested
  book has no owner: \<open>canEdit\<close> throws, the reply is 500 ``Server error while creating swap
  request'', and the database is returned unchanged, so no swap is created.
\<close>

theorem C9_null_owner_throws:
  assumes rb: "books d rid = Some b1" "book_isActive b1" "isAvailable b1"
    and ob: "books d oid = Some b2" "book_isActive b2" "isAvailable b2"
    and nul: "book_owner b2 = None \<or> (book_owner b2 = Some uid \<and> book_owner b1 = None)"
  shows "create_swap uid rid oid msg now d =
           (Reply 500 ''Server error while creating swap request'', d)"
  using assms by (auto simp: create_swap_def not_available_def book_canEdit_def)

text \<open>The server error is the reply in no other case.\<close>

lemma create_swap_server_error_only:
  assumes "fst (create_swap uid rid oid msg now d) = Reply 500 m"
  shows "\<exists>b1 b2. books d rid = Some b1 \<and> books d oid = Some b2 \<and>
           book_isActive b1 \<and> isAvailable b1 \<and> book_isActive b2 \<and> isAvailable b2 \<and>
           (book_owner b2 = None \<or> (book_owner b2 = Some uid \<and> book_owner b1 = None))"
  using assms
  by (auto simp: create_swap_def not_available_def book_canEdit_def
           split: if_splits option.splits bool.splits)

theorem C9_null_owner_throws_witness:
  "books db0 50 = Some (mk_book ''V'' None) \<and> books db0 20 = Some (mk_book ''Y'' (Some 2)) \<and>
   create_swap 2 50 20 ''hi'' 1000 db0 =
     (Reply 500 ''Server error while creating swap request'', db0) \<and>
   create_swap 2 10 50 ''hi'' 1000 db0 =
     (Reply 500 ''Server error while creating swap request'', db0)"
proof -
  have v: "books db0 50 = Some (mk_book ''V'' None)"
    and y: "books db0 20 = Some (mk_book ''Y'' (Some 2))"
    and x: "books db0 10 = Some (mk_book ''X'' (Some 1))"
    by (simp_all add: db0_def)
  have a: "book_isActive (mk_book t w)" "isAvailable (mk_book t w)" for t w
    by (simp_all add: mk_book_def)
  have n1: "book_owner (mk_book ''Y'' (Some 2)) = None \<or>
      (book_owner (mk_book ''Y'' (Some 2)) = Some 2 \<and> book_owner (mk_book ''V'' None) = None)"
    by (simp add: mk_book_def)
  have n2: "book_owner (mk_book ''V'' None) = None \<or>
      (book_owner (mk_book ''V'' None) = Some 2 \<and> book_owner (mk_book ''X'' (Some 1)) = None)"
    by (simp add: mk_book_def)
  show ?thesis
    by (intro conjI v y C9_null_owner_throws[OF v a y a n1] C9_null_owner_throws[OF x a v a n2])
qed

section \<open>Recomputing a rating\<close>

lemma floor_rat_numeral: "\<lfloor>(numeral a :: rat) / numeral b\<rfloor> = numeral a div numeral b"
  using floor_divide_of_int_eq[of "numeral a" "numeral b", where ?'a = rat] by simp




section \<open>Soft-deleting a review\<close>

text \<open>\<^verbatim>\<open>DELETE /api/reviews/:id\<close> never writes a user record.\<close>

lemma delete_review_users: "users (snd (delete_review uid rl rid d)) = users d"
  by (simp add: delete_review_def review_save_def review_post_save_def split: option.splits)

text \<open>\<^verbatim>\<open>POST /api/reviews\<close>, when it succeeds, stores the recomputed rating.\<close>

lemma create_review_syncs:
  assumes "create_review uid swapId revieweeId rating cmt d = (Reply 201 m, d')"
  shows "users d' revieweeId =
     map_option (\<lambda>x. x\<lparr>user_rating := fst (calculateUserRating (reviews d') revieweeId),
                        totalRatings := snd (calculateUserRating (reviews d') revieweeId)\<rparr>)
       (users d revieweeId)"
  using assms
  by (auto simp: create_review_def review_insert_def review_post_save_def Let_def
                 findByIdAndUpdate_apply split: option.splits if_splits)


section \<open>One review for each reviewer, reviewee and swap\<close>

lemma set_update_one: "set (update_one P y xs) \<subseteq> insert y (set xs)"
  by (induction xs) auto

lemma update_one_keeps: "z \<in> set xs \<Longrightarrow> z \<in> set (update_one P y xs) \<or> find P xs = Some z"
  by (induction xs) auto

lemma update_one_puts: "find P xs = Some x \<Longrightarrow> y \<in> set (update_one P y xs)"
  by (induction xs) (auto split: if_splits)

lemma find_Some_set: "find P xs = Some x \<Longrightarrow> x \<in> set xs"
  by (induction xs) (auto split: if_splits)

lemma reviews_pre_save [simp]: "reviews (swap_pre_save s s' d) = reviews d"
  by (simp add: swap_pre_save_def)

lemma reviews_swap_save [simp]: "reviews (swap_save s s' d) = reviews d"
  by (simp add: swap_save_def Let_def)

lemma reviews_post_save [simp]: "reviews (review_post_save n m r d) = reviews d"
  by (simp add: review_post_save_def Let_def)

lemma review_swap_ok_key: "same_key r r' \<Longrightarrow> review_swap_ok d r = review_swap_ok d r'"
  by (auto simp: same_key_def review_swap_ok_def split: option.splits)

lemma same_key_refl [simp]: "same_key r r"
  by (simp add: same_key_def)

lemma key_stays_update_one:
  assumes m: "r \<in> set xs" and f: "find P xs = Some r0" and k: "same_key r0 y"
  shows "\<exists>r'\<in>set (update_one P y xs). same_key r r'"
proof (cases "r \<in> set (update_one P y xs)")
  case True
  then show ?thesis by (rule bexI[rotated]) simp
next
  case False
  then have "r = r0" using update_one_keeps[OF m, of P y] f by simp
  then show ?thesis using update_one_puts[OF f, of y] k by (auto intro: bexI[of _ y])
qed

lemma review_swap_ok_handle:
  assumes "review_swap_ok d r"
  shows "review_swap_ok (snd (handle rq now d)) r"
proof -
  from assms obtain s where f: "swap_findById (review_swap r) d = Some s"
    and c: "status s = Completed"
    by (auto simp: review_swap_ok_def split: option.splits)
  have "terminal (status s)" using c by (simp add: terminal_def)
  then have "swap_findById (review_swap r) (snd (handle rq now d)) = Some s"
    using f by (simp add: handle_keeps_terminal)
  then show ?thesis using assms f by (simp add: review_swap_ok_def)
qed

text \<open>The reviews a request leaves: each has the key of a review stored before, or is
  a new review of a completed swap by one of the parties about the other.\<close>

lemma reviews_after_handle:
  assumes "r' \<in> set (reviews (snd (handle rq now d)))"
  shows "(\<exists>r\<in>set (reviews d). same_key r r') \<or> review_swap_ok d r'"
proof (cases rq)
  case (CreateSwap uid rid oid msg)
  then show ?thesis using assms
    by (auto simp: create_swap_def same_key_def split: if_splits option.splits bool.splits)
next
  case (AcceptSwap uid sid rm loc dt)
  then show ?thesis using assms
    by (auto simp: accept_swap_def swap_accept_def Let_def same_key_def
             split: if_splits option.splits)
next
  case (DeclineSwap uid sid rm)
  then show ?thesis using assms
    by (auto simp: decline_swap_def swap_decline_def same_key_def split: if_splits option.splits)
next
  case (CompleteSwap uid sid)
  then show ?thesis using assms
    by (auto simp: complete_swap_def swap_complete_def same_key_def split: if_splits option.splits)
next
  case (CancelSwap uid sid)
  then show ?thesis using assms
    by (auto simp: cancel_swap_def swap_cancel_def same_key_def split: if_splits option.splits)
next
  case (CreateReview uid swapId revieweeId rating cmt)
  then show ?thesis using assms
    by (auto simp: create_review_def review_insert_def same_key_def review_swap_ok_def
             split: if_splits option.splits)
next
  case (UpdateReview uid rid rating cmt)
  show ?thesis
  proof (cases "review_findById rid d")
    case None
    then show ?thesis using assms UpdateReview
      by (auto simp: update_review_def same_key_def)
  next
    case (Some r0)
    then have m: "r0 \<in> set (reviews d)"
      by (simp add: review_findById_def find_Some_set)
    define r2 where "r2 =
      (let r1 = (case rating of None \<Rightarrow> r0 | Some x \<Rightarrow> r0\<lparr>review_rating := x\<rparr>)
       in (case cmt of None \<Rightarrow> r1 | Some c \<Rightarrow> r1\<lparr>comment := c\<rparr>))"
    have k: "same_key r0 r2"
      by (simp add: r2_def same_key_def Let_def split: option.splits)
    have "r' \<in> set (reviews d) \<or> r' = r2"
      using assms UpdateReview Some set_update_one[of "\<lambda>x. review_id x = review_id r2" r2 "reviews d"]
      by (auto simp: update_review_def review_save_def Let_def r2_def split: if_splits)
    then show ?thesis using m k by (auto simp: same_key_def)
  qed
next
  case (DeleteReview uid rl rid)
  show ?thesis
  proof (cases "review_findById rid d")
    case None
    then show ?thesis using assms DeleteReview
      by (auto simp: delete_review_def same_key_def)
  next
    case (Some r0)
    then have m: "r0 \<in> set (reviews d)"
      by (simp add: review_findById_def find_Some_set)
    have k: "same_key r0 (r0\<lparr>review_isActive := False\<rparr>)"
      by (simp add: same_key_def)
    have "r' \<in> set (reviews d) \<or> r' = r0\<lparr>review_isActive := False\<rparr>"
      using assms DeleteReview Some
        set_update_one[of "\<lambda>x. review_id x = review_id r0" "r0\<lparr>review_isActive := False\<rparr>" "reviews d"]
      by (auto simp: delete_review_def review_save_def split: if_splits)
    then show ?thesis using m k by (auto simp: same_key_def)
  qed
qed

lemma reviews_ok_handle:
  assumes "reviews_ok d"
  shows "reviews_ok (snd (handle rq now d))"
proof -
  have "review_swap_ok (snd (handle rq now d)) r'"
    if "r' \<in> set (reviews (snd (handle rq now d)))" for r'
  proof -
    from reviews_after_handle[OF that]
    have "review_swap_ok d r'"
      using assms by (auto simp: reviews_ok_def list_all_iff review_swap_ok_key)
    then show ?thesis by (rule review_swap_ok_handle)
  qed
  then show ?thesis by (simp add: reviews_ok_def list_all_iff)
qed

lemma reviews_ok_run: "reviews_ok d \<Longrightarrow> reviews_ok (run qs d)"
  by (induction qs arbitrary: d) (simp_all add: reviews_ok_handle)

text \<open>No request removes a review record: its key stays in the collection.\<close>

lemma key_stays_handle:
  assumes "r \<in> set (reviews d)"
  shows "\<exists>r'\<in>set (reviews (snd (handle rq now d))). same_key r r'"
proof (cases rq)
  case (CreateSwap uid rid oid msg)
  then show ?thesis using assms
    by (auto simp: create_swap_def same_key_def split: if_splits option.splits bool.splits)
next
  case (AcceptSwap uid sid rm loc dt)
  then show ?thesis using assms
    by (auto simp: accept_swap_def swap_accept_def Let_def same_key_def
             split: if_splits option.splits)
next
  case (DeclineSwap uid sid rm)
  then show ?thesis using assms
    by (auto simp: decline_swap_def swap_decline_def same_key_def split: if_splits option.splits)
next
  case (CompleteSwap uid sid)
  then show ?thesis using assms
    by (auto simp: complete_swap_def swap_complete_def same_key_def split: if_splits option.splits)
next
  case (CancelSwap uid sid)
  then show ?thesis using assms
    by (auto simp: cancel_swap_def swap_cancel_def same_key_def split: if_splits option.splits)
next
  case (CreateReview uid swapId revieweeId rating cmt)
  then show ?thesis using assms
    by (auto simp: create_review_def review_insert_def same_key_def
             split: if_splits option.splits)
next
  case (UpdateReview uid rid rating cmt)
  show ?thesis
  proof (cases "review_findById rid d")
    case None
    then show ?thesis using assms UpdateReview
      by (auto simp: update_review_def same_key_def)
  next
    case (Some r0)
    define r2 where "r2 =
      (let r1 = (case rating of None \<Rightarrow> r0 | Some x \<Rightarrow> r0\<lparr>review_rating := x\<rparr>)
       in (case cmt of None \<Rightarrow> r1 | Some c \<Rightarrow> r1\<lparr>comment := c\<rparr>))"
    have k: "same_key r0 r2" and i: "review_id r2 = review_id r0"
      by (simp_all add: r2_def same_key_def Let_def split: option.splits)
    have i0: "review_id r0 = rid"
      using Some by (auto simp: review_findById_def dest: find_Some_iff[THEN iffD1])
    let ?xs = "update_one (\<lambda>x. review_id x = rid) r2 (reviews d)"
    have ex: "\<exists>r'\<in>set ?xs. same_key r r'"
      using Some by (intro key_stays_update_one[OF assms _ k]) (simp add: review_findById_def)
    show ?thesis
    proof (cases "review_isActive r0 \<and> review_canEdit r0 uid")
      case True
      then have "reviews (snd (handle rq now d)) = ?xs"
        using UpdateReview Some i i0
        by (simp add: update_review_def review_save_def Let_def r2_def)
      then show ?thesis using ex by simp
    next
      case False
      then have "snd (handle rq now d) = d"
        using UpdateReview Some by (auto simp: update_review_def)
      then show ?thesis using assms by (auto simp: same_key_def)
    qed
  qed
next
  case (DeleteReview uid rl rid)
  show ?thesis
  proof (cases "review_findById rid d")
    case None
    then show ?thesis using assms DeleteReview
      by (auto simp: delete_review_def same_key_def)
  next
    case (Some r0)
    let ?r2 = "r0\<lparr>review_isActive := False\<rparr>"
    have k: "same_key r0 ?r2"
      by (simp add: same_key_def)
    have i0: "review_id r0 = rid"
      using Some by (auto simp: review_findById_def dest: find_Some_iff[THEN iffD1])
    let ?xs = "update_one (\<lambda>x. review_id x = rid) ?r2 (reviews d)"
    have ex: "\<exists>r'\<in>set ?xs. same_key r r'"
      using Some by (intro key_stays_update_one[OF assms _ k]) (simp add: review_findById_def)
    show ?thesis
    proof (cases "review_isActive r0 \<and> (review_canEdit r0 uid \<or> rl = AdminRole)")
      case True
      then have "reviews (snd (handle rq now d)) = ?xs"
        using DeleteReview Some i0
        by (auto simp: delete_review_def review_save_def)
      then show ?thesis using ex by simp
    next
      case False
      then have "snd (handle rq now d) = d"
        using DeleteReview Some by (auto simp: delete_review_def)
      then show ?thesis using assms by (auto simp: same_key_def)
    qed
  qed
qed

lemma key_stays_run:
  "r \<in> set (reviews d) \<Longrightarrow> \<exists>r'\<in>set (reviews (run qs d)). same_key r r'"
proof (induction qs arbitrary: d r)
  case Nil
  then show ?case by (auto simp: same_key_def)
next
  case (Cons q qs)
  from key_stays_handle[OF Cons.prems, of "fst q" "snd q"]
  obtain r1 where 1: "r1 \<in> set (reviews (snd (handle (fst q) (snd q) d)))" and 2: "same_key r r1"
    by auto
  from Cons.IH[OF 1] obtain r2 where "r2 \<in> set (reviews (run (q # qs) d))" "same_key r1 r2"
    by auto
  then show ?case using 2 by (auto simp: same_key_def)
qed

lemma create_review_conflict:
  assumes ok: "reviews_ok d" and m: "r \<in> set (reviews d)" and k: "same_key r0 r"
  shows "create_review (reviewer r0) (review_swap r0) (reviewee r0) rating cmt d =
           (Reply 400 ''You have already reviewed this swap'', d)"
proof -
  have o: "review_swap_ok d r"
    using ok m by (simp add: reviews_ok_def list_all_iff)
  have "existingReview (reviewer r0) (reviewee r0) (review_swap r0) d \<noteq> None"
    using m k by (auto simp: existingReview_def find_None_conv same_key_def)
  then obtain e where "existingReview (reviewer r0) (reviewee r0) (review_swap r0) d = Some e"
    by auto
  then show ?thesis
    using o k
    by (auto simp: create_review_def review_swap_ok_def canModify_def same_key_def
             split: option.splits)
qed

text \<open>
  C10.  In any database reached by swap and review requests from one that stores no
  review, let \<open>r\<close> be a stored review, active or soft-deleted.  A create request by the
  reviewer of \<open>r\<close> for the same swap and reviewee is answered with 400 ``You have already
  reviewed this swap'' and returns the database unchanged.  The same holds after any
  soft delete, in particular the reviewer's delete of \<open>r\<close> itself, and after any further
  run of requests: the soft delete keeps the record, and the lookup does not filter on
  \<open>isActive\<close>.
\<close>

theorem C10_existing_review_conflict:
  assumes e: "reviews d0 = []"
    and m: "r \<in> set (reviews (run qs d0))"
  shows "create_review (reviewer r) (review_swap r) (reviewee r) rating cmt (run qs d0) =
           (Reply 400 ''You have already reviewed this swap'', run qs d0) \<and>
         (\<forall>uid rl rid.
            create_review (reviewer r) (review_swap r) (reviewee r) rating cmt
              (snd (delete_review uid rl rid (run qs d0))) =
            (Reply 400 ''You have already reviewed this swap'',
             snd (delete_review uid rl rid (run qs d0)))) \<and>
         (\<forall>qs'. create_review (reviewer r) (review_swap r) (reviewee r) rating cmt
                  (run qs' (run qs d0)) =
                (Reply 400 ''You have already reviewed this swap'', run qs' (run qs d0)))"
proof -
  have ok0: "reviews_ok d0" using e by (simp add: reviews_ok_def)
  have later: "create_review (reviewer r) (review_swap r) (reviewee r) rating cmt
                  (run qs' (run qs d0)) =
                (Reply 400 ''You have already reviewed this swap'', run qs' (run qs d0))" for qs'
  proof -
    have ok: "reviews_ok (run qs' (run qs d0))"
      using ok0 by (simp add: reviews_ok_run)
    from key_stays_run[OF m, of qs']
    obtain r' where "r' \<in> set (reviews (run qs' (run qs d0)))" "same_key r r'" by auto
    then show ?thesis using ok by (rule create_review_conflict[rotated])
  qed
  have del: "create_review (reviewer r) (review_swap r) (reviewee r) rating cmt
              (snd (delete_review uid rl rid (run qs d0))) =
            (Reply 400 ''You have already reviewed this swap'',
             snd (delete_review uid rl rid (run qs d0)))" for uid rl rid
    using later[of "[(DeleteReview uid rl rid, 0)]"] by simp
  show ?thesis using later[of "[]"] del later by simp
qed

theorem C10_existing_review_conflict_witness:
  "reviews db0 = [] \<and>
   run [(CreateSwap 2 10 20 ''hi'', 1000), (AcceptSwap 1 1 None None None, 2000),
        (CompleteSwap 2 1, 3000), (CreateReview 2 1 1 4 ''good'', 3500),
        (DeleteReview 2 UserRole 1, 4000)] db0 = dbD \<and>
   reviews dbD = [mk_review 1 2 1 1 4 ''good'' False] \<and>
   create_review 2 1 1 5 ''better'' dbD = (Reply 400 ''You have already reviewed this swap'', dbD)"
proof -
  let ?qs = "[(CreateSwap 2 10 20 ''hi'', 1000), (AcceptSwap 1 1 None None None, 2000),
        (CompleteSwap 2 1, 3000), (CreateReview 2 1 1 4 ''good'', 3500),
        (DeleteReview 2 UserRole 1, 4000)]"
  let ?r = "mk_review 1 2 1 1 4 ''good'' False"
  have e: "reviews db0 = []" by (simp add: db0_def)
  have rn: "run ?qs db0 = dbD"
    by (simp add: dbD_def dbR_def dbC_def dbA_def db1_def)
  have rv: "reviews dbD = [?r]"
    by (simp add: scenario_defs model_defs floor_rat_numeral)
  have m: "?r \<in> set (reviews (run ?qs db0))"
    unfolding rn rv by simp
  have k: "reviewer ?r = 2" "review_swap ?r = 1" "reviewee ?r = 1"
    by (simp_all add: mk_review_def)
  have "create_review (reviewer ?r) (review_swap ?r) (reviewee ?r) 5 ''better'' (run ?qs db0) =
           (Reply 400 ''You have already reviewed this swap'', run ?qs db0)"
    using C10_existing_review_conflict[OF e m, of 5 "''better''"] by blast
  then have c: "create_review 2 1 1 5 ''better'' dbD =
      (Reply 400 ''You have already reviewed this swap'', dbD)"
    unfolding rn k .
  show ?thesis by (intro conjI e rn rv c)
qed

end
